theory Spec2Isabelle
  imports Main
begin

section \<open>DocChat: the request handler and the index cache\<close>

text \<open>
  A shallow embedding of \<^verbatim>\<open>docai/docchat/views.py\<close> and \<^verbatim>\<open>docai/docchat/forms.py\<close>.
  The view \<^verbatim>\<open>home\<close> reads and writes the request's session, the document table and the
  directory of persisted indexes, and it calls services that the repository does not
  implement (file storage, HTTP download, PDF parsing, text splitting, embedding, the
  retrieval chain with the language model). The mutable parts are one record that every
  function takes and returns; the services are a record of functions, each fallible one
  returning a sum with the exception on the left. An exception that leaves \<^verbatim>\<open>home\<close> is the
  outcome \<open>Inl e\<close>; a rendered page is \<open>Inr r\<close>.
\<close>

subsection \<open>Data\<close>

datatype error =
    DoesNotExist
  | StorageError
  | HTTPError
  | PdfError
  | EmbeddingError
  | ValueError
  | LLMError

type_synonym page = string
type_synonym chunk = string
type_synonym vector = "int list"

text \<open>The persisted index: the chunks with their embeddings, which the handler never inspects.\<close>

type_synonym index = "(chunk \<times> vector) list"

record uploaded_file =
  up_name :: string
  up_content :: string

record file_ref =
  url :: string
  path :: string

record document =
  doc_id :: nat
  doc_file :: file_ref

record entry =
  question :: string
  answer :: string

text \<open>
  The three session keys the view uses. A key that is absent is \<open>None\<close>;
  \<open>modified\<close> is the session object's attribute of that name.
\<close>

record session =
  uploaded_filename :: "string option"
  document_id :: "nat option"
  conversation :: "entry list option"
  modified :: bool

text \<open>What \<^verbatim>\<open>PyPDFLoader\<close> was constructed on.\<close>

datatype loader =
    LocalPdf string
  | TempPdf string

text \<open>The calls the code makes outside of itself, in the order in which it makes them.\<close>

datatype event =
    DocSaved nat
  | IndexLoaded nat
  | HttpGet string
  | PdfLoad loader
  | EmbedCall "chunk list"
  | IndexPersisted nat
  | UploadFormValidated
  | QuestionFormValidated
  | QaRun index string

record state =
  session :: session
  documents :: "nat \<rightharpoonup> file_ref"
  last_id :: nat
  vectorstore_dir :: bool
  vectorstores :: "nat \<rightharpoonup> index"
  tmp_files :: "string list"
  trace :: "event list"

text \<open>
  The collaborators. \<open>storage_save\<close> is the file storage taking an upload: where it puts
  the file (\<^verbatim>\<open>doc.file.url\<close>, \<^verbatim>\<open>doc.file.path\<close>) depends on what it already holds, so
  it reads the state, and it may fail; \<open>http_get\<close> is \<^verbatim>\<open>requests.get\<close> followed by
  \<^verbatim>\<open>raise_for_status\<close>; \<open>pdf_load\<close> is \<^verbatim>\<open>loader.load()\<close>; \<open>split_documents\<close> is the
  \<^verbatim>\<open>CharacterTextSplitter(chunk_size=1000, chunk_overlap=100)\<close>; \<open>embed\<close> is the embedding
  service as \<^verbatim>\<open>Chroma.from_documents\<close> calls it on the chunks, answering with the vector
  of each chunk; \<open>qa_run\<close> is the \<^verbatim>\<open>RetrievalQA\<close> chain
  over the index's retriever with \<^verbatim>\<open>ChatOpenAI(temperature=0)\<close>.
\<close>

record services =
  storage_save :: "state \<Rightarrow> uploaded_file \<Rightarrow> error + file_ref"
  http_get :: "string \<Rightarrow> error + string"
  pdf_load :: "loader \<Rightarrow> error + page list"
  split_documents :: "page list \<Rightarrow> chunk list"
  embed :: "chunk list \<Rightarrow> error + (chunk \<Rightarrow> vector)"
  qa_run :: "index \<Rightarrow> string \<Rightarrow> error + string"

definition log_event :: "event \<Rightarrow> state \<Rightarrow> state" where
  "log_event e st = st\<lparr>trace := trace st @ [e]\<rparr>"

subsection \<open>The index cache\<close>

text \<open>
  \<^verbatim>\<open>load_pdf_from_cloudinary\<close>: download, raise on a failed download, write the bytes to a
  temporary file that is kept (\<^verbatim>\<open>delete=False\<close>), and wrap that file.
\<close>

definition load_pdf_from_cloudinary ::
  "services \<Rightarrow> string \<Rightarrow> state \<Rightarrow> (error + loader) \<times> state" where
  "load_pdf_from_cloudinary env file_url st =
     (let st1 = log_event (HttpGet file_url) st in
      case http_get env file_url of
        Inl e \<Rightarrow> (Inl e, st1)
      | Inr content \<Rightarrow>
          (Inr (TempPdf content), st1\<lparr>tmp_files := tmp_files st1 @ [content]\<rparr>))"

definition get_loader ::
  "services \<Rightarrow> document \<Rightarrow> state \<Rightarrow> (error + loader) \<times> state" where
  "get_loader env doc st =
     (if take 4 (url (doc_file doc)) = ''http''
      then load_pdf_from_cloudinary env (url (doc_file doc)) st
      else (Inr (LocalPdf (path (doc_file doc))), st))"

text \<open>
  \<^verbatim>\<open>get_vectorstore\<close>. The store path is \<^verbatim>\<open>VECTORSTORE_DIR/str(doc.id)\<close>, one directory per
  document id, so the directories are a map from document ids to what a \<^verbatim>\<open>Chroma\<close> opened
  on the directory holds. \<^verbatim>\<open>Chroma.from_documents\<close> opens its store on the directory first,
  which creates the directory with nothing in it, then has the chunks embedded, and then
  adds them, which it refuses for an empty list of chunks. An error after the directory
  was created leaves the empty directory behind.
\<close>

definition get_vectorstore ::
  "services \<Rightarrow> document \<Rightarrow> state \<Rightarrow> (error + index) \<times> state" where
  "get_vectorstore env doc st =
     (let st1 = st\<lparr>vectorstore_dir := True\<rparr> in
      case vectorstores st1 (doc_id doc) of
        Some ix \<Rightarrow> (Inr ix, log_event (IndexLoaded (doc_id doc)) st1)
      | None \<Rightarrow>
          (case get_loader env doc st1 of
             (Inl e, st2) \<Rightarrow> (Inl e, st2)
           | (Inr ld, st2) \<Rightarrow>
               (let st3 = log_event (PdfLoad ld) st2 in
                case pdf_load env ld of
                  Inl e \<Rightarrow> (Inl e, st3)
                | Inr pages \<Rightarrow>
                    (let texts = split_documents env pages;
                         st4 = st3\<lparr>vectorstores := (vectorstores st3)(doc_id doc \<mapsto> [])\<rparr>;
                         st5 = log_event (EmbedCall texts) st4 in
                     case embed env texts of
                       Inl e \<Rightarrow> (Inl e, st5)
                     | Inr vec \<Rightarrow>
                         if texts = [] then (Inl ValueError, st5)
                         else
                           (let ix = map (\<lambda>c. (c, vec c)) texts;
                                st6 = st5\<lparr>vectorstores :=
                                           (vectorstores st5)(doc_id doc \<mapsto> ix)\<rparr>
                            in (Inr ix, log_event (IndexPersisted (doc_id doc)) st6))))))"

subsection \<open>Requests, forms and pages\<close>

record request =
  req_method :: string
  req_POST :: "string \<rightharpoonup> string"
  req_FILES :: "string \<rightharpoonup> uploaded_file"

datatype form_error =
    Required
  | InvalidFile
  | EmptyFile
  | MaxLength nat nat
  | NullCharacter

text \<open>
  A form as the template receives it: unbound (\<^verbatim>\<open>Form()\<close>, which has no errors), or bound
  to submitted data, with the errors that validating the data gives.
\<close>

record form =
  is_bound :: bool
  form_errors :: "form_error list"

definition unbound_form :: form where
  "unbound_form = \<lparr>is_bound = False, form_errors = []\<rparr>"

definition bound_form :: "form_error list \<Rightarrow> form" where
  "bound_form errs = \<lparr>is_bound = True, form_errors = errs\<rparr>"

text \<open>
  \<^verbatim>\<open>DocumentUploadForm\<close> has the one required \<^verbatim>\<open>FileField\<close> named \<^verbatim>\<open>file\<close>. The framework's
  field rejects a missing file, a file without a name and an empty file.
\<close>

definition DocumentUploadForm_clean ::
  "(string \<rightharpoonup> uploaded_file) \<Rightarrow> form_error list + uploaded_file" where
  "DocumentUploadForm_clean files =
     (case files ''file'' of
        None \<Rightarrow> Inl [Required]
      | Some f \<Rightarrow>
          if up_name f = [] then Inl [InvalidFile]
          else if up_content f = [] then Inl [EmptyFile]
          else Inr f)"

text \<open>
  \<^verbatim>\<open>QuestionForm\<close> has the one required \<^verbatim>\<open>CharField\<close> named \<^verbatim>\<open>question\<close> with
  \<^verbatim>\<open>max_length=500\<close>. The framework's field strips surrounding whitespace first, rejects
  what is then empty, and runs the length and the null-character validators on the rest.
  A character of the model is a character of the Python string with a code point below
  256; \<open>whitespace\<close> lists the ones that \<^verbatim>\<open>str.strip\<close> removes.
\<close>

definition whitespace :: "char list" where
  "whitespace =
     [CHR 0x09, CHR 0x0A, CHR 0x0B, CHR 0x0C, CHR 0x0D,
      CHR 0x1C, CHR 0x1D, CHR 0x1E, CHR 0x1F, CHR 0x20, CHR 0x85, CHR 0xA0]"

definition strip :: "string \<Rightarrow> string" where
  "strip s =
     rev (dropWhile (\<lambda>c. c \<in> set whitespace)
       (rev (dropWhile (\<lambda>c. c \<in> set whitespace) s)))"

definition QuestionForm_clean :: "(string \<rightharpoonup> string) \<Rightarrow> form_error list + string" where
  "QuestionForm_clean post =
     (let v = (case post ''question'' of None \<Rightarrow> [] | Some s \<Rightarrow> strip s) in
      if v = [] then Inl [Required]
      else
        (let errs =
           (if 500 < length v then [MaxLength 500 (length v)] else []) @
           (if CHR 0x00 \<in> set v then [NullCharacter] else [])
         in if errs = [] then Inr v else Inl errs))"

text \<open>A template context is the dictionary the view passes to \<^verbatim>\<open>render\<close>, in source order.\<close>

datatype ctxval =
    CNone
  | CStr string
  | CForm form
  | CConv "entry list"

record response =
  template :: string
  page_context :: "(string \<times> ctxval) list"

definition render :: "string \<Rightarrow> (string \<times> ctxval) list \<Rightarrow> response" where
  "render t c = \<lparr>template = t, page_context = c\<rparr>"

definition opt_str :: "string option \<Rightarrow> ctxval" where
  "opt_str v = (case v of None \<Rightarrow> CNone | Some s \<Rightarrow> CStr s)"

text \<open>\<^verbatim>\<open>request.session.get("conversation", [])\<close>.\<close>

definition get_conversation :: "session \<Rightarrow> entry list" where
  "get_conversation s = (case conversation s of None \<Rightarrow> [] | Some c \<Rightarrow> c)"

text \<open>
  The document table maps the id of a row to its file. \<^verbatim>\<open>Document.objects.get(id=doc_id)\<close>
  gives the row with that id and raises when there is none.
\<close>

definition objects_get :: "state \<Rightarrow> nat \<Rightarrow> error + document" where
  "objects_get st i =
     (case documents st i of
        None \<Rightarrow> Inl DoesNotExist
      | Some f \<Rightarrow> Inr \<lparr>doc_id = i, doc_file = f\<rparr>)"

text \<open>
  \<^verbatim>\<open>doc = Document(file=uploaded_file); doc.save()\<close>: the storage takes the file, and when
  it has, the table gives the row the next id of its sequence, which starts at 1. An error
  of the storage leaves the table as it was.
\<close>

definition save_document ::
  "services \<Rightarrow> uploaded_file \<Rightarrow> state \<Rightarrow> (error + document) \<times> state" where
  "save_document env f st =
     (case storage_save env st f of
        Inl e \<Rightarrow> (Inl e, st)
      | Inr stored \<Rightarrow>
          (let doc = \<lparr>doc_id = Suc (last_id st), doc_file = stored\<rparr> in
           (Inr doc,
            log_event (DocSaved (doc_id doc))
              (st\<lparr>documents := (documents st)(doc_id doc \<mapsto> doc_file doc),
                  last_id := doc_id doc\<rparr>))))"

subsection \<open>The view\<close>

text \<open>The final \<^verbatim>\<open>return\<close> of \<^verbatim>\<open>home\<close>, reached when no branch has returned.\<close>

definition home_default :: "form \<Rightarrow> state \<Rightarrow> (error + response) \<times> state" where
  "home_default upload_form st =
     (Inr (render ''docchat/upload.html'' [(''form'', CForm upload_form)]), st)"

definition home_upload :: "services \<Rightarrow> request \<Rightarrow> state \<Rightarrow> (error + response) \<times> state" where
  "home_upload env request st =
     (let st0 = log_event UploadFormValidated st in
      case DocumentUploadForm_clean (req_FILES request) of
        Inl errs \<Rightarrow> home_default (bound_form errs) st0
      | Inr uploaded \<Rightarrow>
          (case save_document env uploaded st0 of
             (Inl e, st1) \<Rightarrow> (Inl e, st1)
           | (Inr doc, st1) \<Rightarrow>
               (let filename = up_name uploaded;
                    st2 = st1\<lparr>session :=
                            \<lparr>uploaded_filename = Some filename,
                             document_id = Some (doc_id doc),
                             conversation = Some [],
                             modified = True\<rparr>\<rparr>
                in case get_vectorstore env doc st2 of
                     (Inl e, st3) \<Rightarrow> (Inl e, st3)
                   | (Inr vs, st3) \<Rightarrow>
                       (Inr (render ''docchat/upload_success.html''
                               [(''filename'', CStr filename),
                                (''question_form'', CForm unbound_form),
                                (''conversation'', CConv []),
                                (''answer'', CNone)]),
                        st3))))"

definition home_ask :: "services \<Rightarrow> request \<Rightarrow> state \<Rightarrow> (error + response) \<times> state" where
  "home_ask env request st =
     (let filename = uploaded_filename (session st) in
      if filename = None \<or> filename = Some [] then
        (Inr (render ''docchat/upload.html''
                [(''form'', CForm unbound_form),
                 (''error'', CStr ''Please upload a document first.'')]),
         st)
      else
        (case (case document_id (session st) of
                 None \<Rightarrow> Inr None
               | Some i \<Rightarrow> if i = 0 then Inr None else map_sum id Some (objects_get st i)) of
           Inl e \<Rightarrow> (Inl e, st)
         | Inr None \<Rightarrow>
             (Inr (render ''docchat/upload.html''
                     [(''form'', CForm unbound_form), (''error'', CStr ''File missing.'')]),
              st)
         | Inr (Some doc) \<Rightarrow>
             (case get_vectorstore env doc st of
                (Inl e, st1) \<Rightarrow> (Inl e, st1)
              | (Inr vs, st1) \<Rightarrow>
                  (let st2 = log_event QuestionFormValidated st1 in
                   case QuestionForm_clean (req_POST request) of
                     Inr q \<Rightarrow>
                       (let st3 = log_event (QaRun vs q) st2 in
                        case qa_run env vs q of
                          Inl e \<Rightarrow> (Inl e, st3)
                        | Inr a \<Rightarrow>
                            (let conv = get_conversation (session st3) @
                                          [\<lparr>question = q, answer = a\<rparr>];
                                 st4 = st3\<lparr>session :=
                                         (session st3)\<lparr>conversation := Some conv,
                                                       modified := True\<rparr>\<rparr>
                             in (Inr (render ''docchat/upload_success.html''
                                        [(''filename'', opt_str filename),
                                         (''question_form'', CForm unbound_form),
                                         (''conversation'',
                                            CConv (get_conversation (session st4)))]),
                                 st4)))
                   | Inl errs \<Rightarrow>
                       (Inr (render ''docchat/upload_success.html''
                               [(''filename'', opt_str filename),
                                (''question_form'', CForm unbound_form),
                                (''conversation'',
                                   CConv (get_conversation (session st2)))]),
                        st2)))))"

definition home_reset :: "state \<Rightarrow> (error + response) \<times> state" where
  "home_reset st =
     (Inr (render ''docchat/upload.html'' [(''form'', CForm unbound_form)]),
      st\<lparr>session :=
           (session st)\<lparr>conversation := None, uploaded_filename := None,
                         document_id := None, modified := True\<rparr>\<rparr>)"

definition home_clear :: "state \<Rightarrow> (error + response) \<times> state" where
  "home_clear st =
     (let st1 = st\<lparr>session := (session st)\<lparr>conversation := Some [], modified := True\<rparr>\<rparr> in
      (Inr (render ''docchat/upload_success.html''
              [(''filename'', opt_str (uploaded_filename (session st1))),
               (''question_form'', CForm unbound_form),
               (''conversation'', CConv []),
               (''answer'', CNone)]),
       st1))"

text \<open>
  \<^verbatim>\<open>home\<close>: the \<^verbatim>\<open>if\<close>/\<^verbatim>\<open>elif\<close> chain over the action markers. Each branch above is the
  body of the branch of the source with the same comment.
\<close>

definition home :: "services \<Rightarrow> request \<Rightarrow> state \<Rightarrow> (error + response) \<times> state" where
  "home env request st =
     (if req_method request = ''POST'' \<and> ''upload_file'' \<in> dom (req_POST request)
        then home_upload env request st
      else if req_method request = ''POST'' \<and> ''ask_question'' \<in> dom (req_POST request)
        then home_ask env request st
      else if req_method request = ''POST'' \<and> ''reset'' \<in> dom (req_POST request)
        then home_reset st
      else if req_method request = ''POST'' \<and> ''clear_chat'' \<in> dom (req_POST request)
        then home_clear st
      else home_default unbound_form st)"

subsection \<open>A concrete scenario\<close>

text \<open>
  Services that answer, a session before any upload, the state after \<^verbatim>\<open>report.pdf\<close> was
  uploaded and indexed, the same state once its row has been deleted from the document
  table, the same state without the directory of its index, and the kinds of submission.
  For the index cache there are also services whose PDF parser finds no page in the file,
  so that there is no chunk, and a state before any upload in which a directory for
  document 1 is left over with the index of another document.
\<close>

definition example_services :: services where
  "example_services =
     \<lparr>storage_save =
        (\<lambda>st f. Inr \<lparr>url = ''/media/'' @ up_name f, path = ''/srv/media/'' @ up_name f\<rparr>),
      http_get = (\<lambda>u. Inl HTTPError),
      pdf_load = (\<lambda>l. Inr [''Total revenue: 42'']),
      split_documents = (\<lambda>ps. ps),
      embed = (\<lambda>cs. Inr (\<lambda>c. [int (length c)])),
      qa_run = (\<lambda>ix q. Inr ''42'')\<rparr>"

definition fresh_session :: session where
  "fresh_session =
     \<lparr>uploaded_filename = None, document_id = None, conversation = None, modified = False\<rparr>"

definition fresh_state :: state where
  "fresh_state =
     \<lparr>session = fresh_session, documents = Map.empty, last_id = 0, vectorstore_dir = False,
      vectorstores = Map.empty, tmp_files = [], trace = []\<rparr>"

definition report_file :: file_ref where
  "report_file = \<lparr>url = ''/media/report.pdf'', path = ''/srv/media/report.pdf''\<rparr>"

definition report_index :: index where
  "report_index = [(''Total revenue: 42'', [17])]"

definition loaded_session :: session where
  "loaded_session =
     \<lparr>uploaded_filename = Some ''report.pdf'', document_id = Some 1,
      conversation = Some [], modified = True\<rparr>"

definition loaded_state :: state where
  "loaded_state =
     \<lparr>session = loaded_session, documents = [1 \<mapsto> report_file], last_id = 1,
      vectorstore_dir = True, vectorstores = [1 \<mapsto> report_index], tmp_files = [],
      trace = []\<rparr>"

definition stale_state :: state where
  "stale_state = loaded_state\<lparr>documents := Map.empty\<rparr>"

definition unindexed_state :: state where
  "unindexed_state = loaded_state\<lparr>vectorstore_dir := False, vectorstores := Map.empty\<rparr>"

definition blank_services :: services where
  "blank_services = example_services\<lparr>pdf_load := (\<lambda>l. Inr [])\<rparr>"




definition ask_request :: "string \<Rightarrow> request" where
  "ask_request q =
     \<lparr>req_method = ''POST'', req_POST = [''ask_question'' \<mapsto> [], ''question'' \<mapsto> q],
      req_FILES = Map.empty\<rparr>"

definition marker_request :: "string list \<Rightarrow> request" where
  "marker_request ms =
     \<lparr>req_method = ''POST'', req_POST = map_of (map (\<lambda>m. (m, [])) ms),
      req_FILES = Map.empty\<rparr>"

definition get_request :: request where
  "get_request = \<lparr>req_method = ''GET'', req_POST = Map.empty, req_FILES = Map.empty\<rparr>"

section \<open>Properties\<close>

subsection \<open>What the index cache leaves alone\<close>

lemma get_loader_fst: "fst (get_loader env doc st) = fst (get_loader env doc st')"
  by (simp add: get_loader_def load_pdf_from_cloudinary_def log_event_def Let_def split: sum.splits)

lemma get_loader_frame:
  "session (snd (get_loader env doc st)) = session st"
  "documents (snd (get_loader env doc st)) = documents st"
  "last_id (snd (get_loader env doc st)) = last_id st"
  "vectorstores (snd (get_loader env doc st)) = vectorstores st"
  "vectorstore_dir (snd (get_loader env doc st)) = vectorstore_dir st"
  by (simp_all add: get_loader_def load_pdf_from_cloudinary_def log_event_def Let_def split: sum.splits)

lemma get_loader_trace:
  "\<exists>evs. trace (snd (get_loader env doc st)) = trace st @ evs \<and>
         QuestionFormValidated \<notin> set evs \<and> (\<forall>ix q. QaRun ix q \<notin> set evs)"
  by (simp add: get_loader_def load_pdf_from_cloudinary_def log_event_def Let_def split: sum.splits)

lemma get_vectorstore_session: "session (snd (get_vectorstore env doc st)) = session st"
proof (cases "get_loader env doc (st\<lparr>vectorstore_dir := True\<rparr>)")
  case (Pair r st2)
  with get_loader_frame(1) [of env doc "st\<lparr>vectorstore_dir := True\<rparr>"]
  show ?thesis
    by (simp add: get_vectorstore_def log_event_def Let_def split: option.splits sum.splits if_splits)
qed

lemma get_vectorstore_documents:
  "documents (snd (get_vectorstore env doc st)) = documents st"
proof (cases "get_loader env doc (st\<lparr>vectorstore_dir := True\<rparr>)")
  case (Pair r st2)
  with get_loader_frame(2) [of env doc "st\<lparr>vectorstore_dir := True\<rparr>"]
  show ?thesis
    by (simp add: get_vectorstore_def log_event_def Let_def split: option.splits sum.splits if_splits)
qed

lemma get_vectorstore_fst_cong:
  assumes "vectorstores st (doc_id doc) = vectorstores st' (doc_id doc)"
  shows "fst (get_vectorstore env doc st) = fst (get_vectorstore env doc st')"
proof (cases "get_loader env doc (st\<lparr>vectorstore_dir := True\<rparr>)")
  case (Pair r st2)
  obtain st2' where Pair': "get_loader env doc (st'\<lparr>vectorstore_dir := True\<rparr>) = (r, st2')"
    using Pair get_loader_fst [of env doc "st\<lparr>vectorstore_dir := True\<rparr>" "st'\<lparr>vectorstore_dir := True\<rparr>"]
    by (cases "get_loader env doc (st'\<lparr>vectorstore_dir := True\<rparr>)") simp
  show ?thesis using assms Pair Pair'
    by (simp add: get_vectorstore_def log_event_def Let_def split: option.splits sum.splits if_splits)
qed

lemma get_vectorstore_persisted:
  assumes "get_vectorstore env doc st = (Inr ix, st')"
  shows "vectorstores st' (doc_id doc) = Some ix"
proof (cases "get_loader env doc (st\<lparr>vectorstore_dir := True\<rparr>)")
  case (Pair r st2)
  with assms show ?thesis
    by (auto simp add: get_vectorstore_def log_event_def Let_def split: option.splits sum.splits if_splits)
qed

lemma get_vectorstore_trace:
  "\<exists>evs. trace (snd (get_vectorstore env doc st)) = trace st @ evs \<and>
         QuestionFormValidated \<notin> set evs \<and> (\<forall>ix q. QaRun ix q \<notin> set evs) \<and>
         (\<forall>ix. fst (get_vectorstore env doc st) = Inr ix \<longrightarrow>
               evs \<noteq> [] \<and>
               (last evs = IndexLoaded (doc_id doc) \<or> last evs = IndexPersisted (doc_id doc)))"
proof (cases "get_loader env doc (st\<lparr>vectorstore_dir := True\<rparr>)")
  case (Pair r st2)
  obtain evs where evs: "trace st2 = trace st @ evs" "QuestionFormValidated \<notin> set evs"
      "\<forall>ix q. QaRun ix q \<notin> set evs"
    using get_loader_trace [of env doc "st\<lparr>vectorstore_dir := True\<rparr>"] Pair by auto
  show ?thesis using Pair evs
    by (auto simp add: get_vectorstore_def log_event_def Let_def split: option.splits sum.splits if_splits)
qed

subsection \<open>The two ways through the index cache\<close>


lemma get_vectorstore_cached:
  assumes "vectorstores st (doc_id doc) = Some ix"
  shows "get_vectorstore env doc st =
           (Inr ix,
            st\<lparr>vectorstore_dir := True, trace := trace st @ [IndexLoaded (doc_id doc)]\<rparr>)"
  using assms by (simp add: get_vectorstore_def log_event_def)

lemma get_vectorstore_built:
  assumes "vectorstores st (doc_id doc) = None"
    and "get_loader env doc (st\<lparr>vectorstore_dir := True\<rparr>) = (Inr ld, st2)"
    and "pdf_load env ld = Inr pages"
    and "embed env (split_documents env pages) = Inr vec"
    and "split_documents env pages \<noteq> []"
  shows "get_vectorstore env doc st =
           (Inr (map (\<lambda>c. (c, vec c)) (split_documents env pages)),
            st2\<lparr>vectorstores :=
                  (vectorstores st)
                    (doc_id doc \<mapsto> map (\<lambda>c. (c, vec c)) (split_documents env pages)),
                trace := trace st2 @
                  [PdfLoad ld, EmbedCall (split_documents env pages),
                   IndexPersisted (doc_id doc)]\<rparr>)"
proof -
  have v: "vectorstores st2 = vectorstores st"
    using get_loader_frame(4) [of env doc "st\<lparr>vectorstore_dir := True\<rparr>"] assms(2) by simp
  show ?thesis
    using assms v by (simp add: get_vectorstore_def log_event_def Let_def)
qed

lemma get_vectorstore_refused:
  assumes "vectorstores st (doc_id doc) = None"
    and "get_loader env doc (st\<lparr>vectorstore_dir := True\<rparr>) = (Inr ld, st2)"
    and "pdf_load env ld = Inr pages"
    and "split_documents env pages = []"
    and "embed env [] = Inr vec"
  shows "get_vectorstore env doc st =
           (Inl ValueError,
            st2\<lparr>vectorstores := (vectorstores st)(doc_id doc \<mapsto> []),
                trace := trace st2 @ [PdfLoad ld, EmbedCall []]\<rparr>)"
proof -
  have v: "vectorstores st2 = vectorstores st"
    using get_loader_frame(4) [of env doc "st\<lparr>vectorstore_dir := True\<rparr>"] assms(2) by simp
  show ?thesis
    using assms v by (simp add: get_vectorstore_def log_event_def Let_def)
qed

lemma get_vectorstore_again:
  assumes "get_vectorstore env doc st = (Inr ix, st1)"
  shows "get_vectorstore env doc st1 =
           (Inr ix, st1\<lparr>trace := trace st1 @ [IndexLoaded (doc_id doc)]\<rparr>)"
proof -
  have p: "vectorstores st1 (doc_id doc) = Some ix"
    using get_vectorstore_persisted [OF assms] .
  have d: "vectorstore_dir st1 = True"
  proof (cases "get_loader env doc (st\<lparr>vectorstore_dir := True\<rparr>)")
    case (Pair r st2)
    with assms get_loader_frame(5) [of env doc "st\<lparr>vectorstore_dir := True\<rparr>"] show ?thesis
      by (auto simp add: get_vectorstore_def log_event_def Let_def
            split: option.splits sum.splits if_splits)
  qed
  then have "st1\<lparr>vectorstore_dir := True\<rparr> = st1" by simp
  with p show ?thesis
    by (simp add: get_vectorstore_def log_event_def Let_def)
qed

subsection \<open>The ask branch on a loaded document\<close>

text \<open>
  With a filename in the session and the row of the session's document in the table, the
  ask branch is the index cache followed by the validation of the question and, for a
  valid question, the retrieval chain.
\<close>

lemma home_ask_loaded:
  assumes "uploaded_filename (session st) = Some f" and "f \<noteq> []"
    and "document_id (session st) = Some i" and "i \<noteq> 0"
    and "documents st i = Some file"
    and "get_vectorstore env \<lparr>doc_id = i, doc_file = file\<rparr> st = (r, st1)"
  shows "home_ask env request st =
     (case r of
        Inl e \<Rightarrow> (Inl e, st1)
      | Inr vs \<Rightarrow>
          (case QuestionForm_clean (req_POST request) of
             Inl errs \<Rightarrow>
               (Inr (render ''docchat/upload_success.html''
                       [(''filename'', CStr f),
                        (''question_form'', CForm unbound_form),
                        (''conversation'', CConv (get_conversation (session st)))]),
                st1\<lparr>trace := trace st1 @ [QuestionFormValidated]\<rparr>)
           | Inr q \<Rightarrow>
               (case qa_run env vs q of
                  Inl e \<Rightarrow> (Inl e, st1\<lparr>trace := trace st1 @ [QuestionFormValidated, QaRun vs q]\<rparr>)
                | Inr a \<Rightarrow>
                    (Inr (render ''docchat/upload_success.html''
                            [(''filename'', CStr f),
                             (''question_form'', CForm unbound_form),
                             (''conversation'',
                                CConv (get_conversation (session st) @
                                         [\<lparr>question = q, answer = a\<rparr>]))]),
                     st1\<lparr>trace := trace st1 @ [QuestionFormValidated, QaRun vs q],
                         session := (session st)
                           \<lparr>conversation :=
                              Some (get_conversation (session st) @
                                      [\<lparr>question = q, answer = a\<rparr>]),
                            modified := True\<rparr>\<rparr>))))"
proof -
  have s: "session st1 = session st"
    using get_vectorstore_session [of env "\<lparr>doc_id = i, doc_file = file\<rparr>" st] assms(6) by simp
  show ?thesis
    using assms s
    by (simp add: home_ask_def objects_get_def log_event_def opt_str_def get_conversation_def
          Let_def split: sum.splits)
qed

text \<open>A question that fails validation leaves the session alone and never reaches the chain.\<close>

lemma home_ask_invalid_keeps_session:
  assumes "req_method request = ''POST''"
    and "''upload_file'' \<notin> dom (req_POST request)"
    and "''ask_question'' \<in> dom (req_POST request)"
    and "QuestionForm_clean (req_POST request) = Inl errs"
  shows "session (snd (home env request st)) = session st \<and>
         (\<exists>evs. trace (snd (home env request st)) = trace st @ evs \<and>
                (\<forall>ix q. QaRun ix q \<notin> set evs))"
proof -
  have h: "home env request st = home_ask env request st"
    using assms(1-3) by (simp add: home_def)
  show ?thesis
  proof (cases "uploaded_filename (session st) = None \<or> uploaded_filename (session st) = Some []")
    case True
    then show ?thesis using h by (auto simp add: home_ask_def)
  next
    case nofresh: False
    then obtain f where f: "uploaded_filename (session st) = Some f" "f \<noteq> []" by auto
    show ?thesis
    proof (cases "document_id (session st)")
      case None
      then show ?thesis using h nofresh by (simp add: home_ask_def)
    next
      case (Some i)
      show ?thesis
      proof (cases "i = 0 \<or> documents st i = None")
        case True
        then show ?thesis using h nofresh Some
          by (auto simp add: home_ask_def objects_get_def)
      next
        case False
        then obtain fl where row: "i \<noteq> 0" "documents st i = Some fl" by auto
        obtain r st1 where gv: "get_vectorstore env \<lparr>doc_id = i, doc_file = fl\<rparr> st = (r, st1)"
          by (cases "get_vectorstore env \<lparr>doc_id = i, doc_file = fl\<rparr> st") simp
        obtain evs where evs: "trace st1 = trace st @ evs" "\<forall>ix q. QaRun ix q \<notin> set evs"
          using get_vectorstore_trace [of env "\<lparr>doc_id = i, doc_file = fl\<rparr>" st] gv by auto
        have s: "session st1 = session st"
          using get_vectorstore_session [of env "\<lparr>doc_id = i, doc_file = fl\<rparr>" st] gv by simp
        show ?thesis
          using home_ask_loaded [OF f Some row gv, of request] h assms(4) evs s
          by (cases r) auto
      qed
    qed
  qed
qed

text \<open>The upload branch reads the files only, the ask branch the \<^verbatim>\<open>question\<close> field only.\<close>

lemma home_ask_cong:
  assumes "req_POST r1 ''question'' = req_POST r2 ''question''"
  shows "home_ask env r1 st = home_ask env r2 st"
proof -
  have q: "QuestionForm_clean (req_POST r1) = QuestionForm_clean (req_POST r2)"
    using assms by (simp add: QuestionForm_clean_def)
  show ?thesis unfolding home_ask_def q by (rule refl)
qed

lemma home_upload_cong:
  assumes "req_FILES r1 = req_FILES r2"
  shows "home_upload env r1 st = home_upload env r2 st"
  using assms by (simp add: home_upload_def)

subsection \<open>The scenario, evaluated\<close>

lemma QuestionForm_clean_revenue:
  "QuestionForm_clean (req_POST (ask_request ''What is the total revenue?'')) =
     Inr ''What is the total revenue?''"
  by (simp add: QuestionForm_clean_def ask_request_def strip_def whitespace_def)

lemma QuestionForm_clean_blank:
  "QuestionForm_clean (req_POST (ask_request ''  '')) = Inl [Required]"
  by (simp add: QuestionForm_clean_def ask_request_def strip_def whitespace_def)


lemma get_loader_report:
  "get_loader example_services \<lparr>doc_id = 1, doc_file = report_file\<rparr> st =
     (Inr (LocalPdf ''/srv/media/report.pdf''), st)"
  by (simp add: get_loader_def report_file_def)

lemma get_vectorstore_loaded_state:
  "vectorstores st 1 = Some report_index \<Longrightarrow>
   fst (get_vectorstore example_services \<lparr>doc_id = 1, doc_file = report_file\<rparr> st) =
     Inr report_index"
  by (simp add: get_vectorstore_def log_event_def)

lemma get_vectorstore_unindexed_state:
  "get_vectorstore example_services \<lparr>doc_id = 1, doc_file = report_file\<rparr> unindexed_state =
     (Inr report_index,
      unindexed_state
        \<lparr>vectorstore_dir := True, vectorstores := [1 \<mapsto> report_index],
         trace := [PdfLoad (LocalPdf ''/srv/media/report.pdf''),
                   EmbedCall [''Total revenue: 42''], IndexPersisted 1]\<rparr>)"
  by (simp add: get_vectorstore_def get_loader_def unindexed_state_def loaded_state_def
        log_event_def example_services_def report_file_def report_index_def Let_def)


lemma home_upload_invalid_shows_error:
  "fst (home example_services (marker_request [''upload_file'']) fresh_state) =
     Inr \<lparr>template = ''docchat/upload.html'',
          page_context = [(''form'', CForm \<lparr>is_bound = True, form_errors = [Required]\<rparr>)]\<rparr>"
  by (simp add: home_def home_upload_def home_default_def DocumentUploadForm_clean_def
        marker_request_def render_def bound_form_def log_event_def)

subsection \<open>The claims\<close>

text \<open>
  C1. An ask in a session whose \<^verbatim>\<open>document_id\<close> names a row that is no longer in the
  document table should answer with an error page. The view looks the row up with
  \<^verbatim>\<open>Document.objects.get\<close>, which raises for a missing row, so the test \<^verbatim>\<open>if not doc\<close> that
  renders \<^verbatim>\<open>File missing.\<close> is never reached for such a session: on the state whose session
  still names document 1 after its row was deleted, \<^verbatim>\<open>DoesNotExist\<close> leaves the view.
\<close>

theorem home_stale_session_raises:
  "home example_services (ask_request ''What is the total revenue?'') stale_state =
     (Inl DoesNotExist, stale_state)"
  by (simp add: home_def home_ask_def objects_get_def ask_request_def stale_state_def
        loaded_state_def loaded_session_def)

text \<open>
  C2, where it fails. A document whose PDF has no page splits into no chunk. The loader,
  the parser and the embedding service all answer, and \<^verbatim>\<open>get_vectorstore\<close> neither persists
  an index nor returns one: \<^verbatim>\<open>Chroma.from_documents\<close> refuses the empty list of chunks and
  \<^verbatim>\<open>ValueError\<close> leaves the function, with the directory of the document already created
  and empty.
\<close>

theorem get_vectorstore_blank_document_raises:
  "get_vectorstore blank_services \<lparr>doc_id = 1, doc_file = report_file\<rparr> unindexed_state =
     (Inl ValueError,
      unindexed_state
        \<lparr>vectorstore_dir := True, vectorstores := [1 \<mapsto> []],
         trace := [PdfLoad (LocalPdf ''/srv/media/report.pdf''), EmbedCall []]\<rparr>)"
  by (simp add: get_vectorstore_def get_loader_def blank_services_def example_services_def
        unindexed_state_def loaded_state_def report_file_def log_event_def Let_def)

text \<open>
  C2, as amended. \<^verbatim>\<open>get_vectorstore\<close> on a document whose index directory exists returns the
  index found there; the directory map is unchanged (nothing is rebuilt) and the one call
  it adds to the trace is the load, so the embedding service is not called. On a document
  without an index directory, when the loader, the PDF parser and the embedding service
  answer: if there is at least one chunk, it has loaded the document, split it and
  embedded the chunks, persists the index of the chunks and their embeddings under the
  document's id and returns it; if there is no chunk, it raises \<^verbatim>\<open>ValueError\<close> and leaves an
  empty directory for the document. A second call after a call that returned gives the
  same index and adds only a load to the trace.
\<close>

theorem get_vectorstore_loads_or_builds:
  "(vectorstores st (doc_id doc) = Some ix \<longrightarrow>
      get_vectorstore env doc st =
        (Inr ix,
         st\<lparr>vectorstore_dir := True, trace := trace st @ [IndexLoaded (doc_id doc)]\<rparr>)) \<and>
   (vectorstores st (doc_id doc) = None \<longrightarrow>
    get_loader env doc (st\<lparr>vectorstore_dir := True\<rparr>) = (Inr ld, st2) \<longrightarrow>
    pdf_load env ld = Inr pages \<longrightarrow>
    embed env (split_documents env pages) = Inr vec \<longrightarrow>
      (split_documents env pages \<noteq> [] \<longrightarrow>
         get_vectorstore env doc st =
           (Inr (map (\<lambda>c. (c, vec c)) (split_documents env pages)),
            st2\<lparr>vectorstores :=
                  (vectorstores st)
                    (doc_id doc \<mapsto> map (\<lambda>c. (c, vec c)) (split_documents env pages)),
                trace := trace st2 @
                  [PdfLoad ld, EmbedCall (split_documents env pages),
                   IndexPersisted (doc_id doc)]\<rparr>)) \<and>
      (split_documents env pages = [] \<longrightarrow>
         get_vectorstore env doc st =
           (Inl ValueError,
            st2\<lparr>vectorstores := (vectorstores st)(doc_id doc \<mapsto> []),
                trace := trace st2 @ [PdfLoad ld, EmbedCall []]\<rparr>))) \<and>
   (get_vectorstore env doc st = (Inr ix', st1) \<longrightarrow>
      get_vectorstore env doc st1 =
        (Inr ix', st1\<lparr>trace := trace st1 @ [IndexLoaded (doc_id doc)]\<rparr>))"
  using get_vectorstore_cached [of st doc ix env]
    get_vectorstore_built [of st doc env ld st2 pages vec]
    get_vectorstore_refused [of st doc env ld st2 pages vec]
    get_vectorstore_again [of env doc st ix' st1]
  by auto

theorem get_vectorstore_loads_or_builds_witness:
  "get_vectorstore example_services \<lparr>doc_id = 1, doc_file = report_file\<rparr> loaded_state =
     (Inr report_index, loaded_state\<lparr>trace := [IndexLoaded 1]\<rparr>) \<and>
   get_vectorstore example_services \<lparr>doc_id = 1, doc_file = report_file\<rparr> unindexed_state =
     (Inr report_index,
      unindexed_state
        \<lparr>vectorstore_dir := True, vectorstores := [1 \<mapsto> report_index],
         trace := [PdfLoad (LocalPdf ''/srv/media/report.pdf''),
                   EmbedCall [''Total revenue: 42''], IndexPersisted 1]\<rparr>) \<and>
   get_vectorstore blank_services \<lparr>doc_id = 1, doc_file = report_file\<rparr> unindexed_state =
     (Inl ValueError,
      unindexed_state
        \<lparr>vectorstore_dir := True, vectorstores := [1 \<mapsto> []],
         trace := [PdfLoad (LocalPdf ''/srv/media/report.pdf''), EmbedCall []]\<rparr>) \<and>
   get_vectorstore example_services \<lparr>doc_id = 1, doc_file = report_file\<rparr>
       (unindexed_state
        \<lparr>vectorstore_dir := True, vectorstores := [1 \<mapsto> report_index],
         trace := [PdfLoad (LocalPdf ''/srv/media/report.pdf''),
                   EmbedCall [''Total revenue: 42''], IndexPersisted 1]\<rparr>) =
     (Inr report_index,
      unindexed_state
        \<lparr>vectorstore_dir := True, vectorstores := [1 \<mapsto> report_index],
         trace := [PdfLoad (LocalPdf ''/srv/media/report.pdf''),
                   EmbedCall [''Total revenue: 42''], IndexPersisted 1, IndexLoaded 1]\<rparr>)"
proof -
  let ?doc = "\<lparr>doc_id = 1, doc_file = report_file\<rparr>"
  let ?ld = "LocalPdf ''/srv/media/report.pdf''"
  let ?built = "unindexed_state
        \<lparr>vectorstore_dir := True, vectorstores := [1 \<mapsto> report_index],
         trace := [PdfLoad ?ld, EmbedCall [''Total revenue: 42''], IndexPersisted 1]\<rparr>"
  have l: "get_loader blank_services ?doc (unindexed_state\<lparr>vectorstore_dir := True\<rparr>) =
             (Inr ?ld, unindexed_state\<lparr>vectorstore_dir := True\<rparr>)"
    by (simp add: get_loader_def report_file_def)
  have 1: "get_vectorstore example_services ?doc loaded_state =
     (Inr report_index, loaded_state\<lparr>trace := [IndexLoaded 1]\<rparr>)"
    using get_vectorstore_loads_or_builds
            [of loaded_state ?doc report_index example_services]
    by (simp add: loaded_state_def)
  have 2: "get_vectorstore example_services ?doc unindexed_state = (Inr report_index, ?built)"
    using get_vectorstore_loads_or_builds
            [of unindexed_state ?doc _ example_services ?ld
                "unindexed_state\<lparr>vectorstore_dir := True\<rparr>" "[''Total revenue: 42'']"
                "\<lambda>c. [int (length c)]"]
      get_loader_report [of "unindexed_state\<lparr>vectorstore_dir := True\<rparr>"]
    by (simp add: unindexed_state_def loaded_state_def example_services_def report_index_def)
  have 3: "get_vectorstore blank_services ?doc unindexed_state =
     (Inl ValueError,
      unindexed_state
        \<lparr>vectorstore_dir := True, vectorstores := [1 \<mapsto> []],
         trace := [PdfLoad ?ld, EmbedCall []]\<rparr>)"
    using get_vectorstore_loads_or_builds
            [of unindexed_state ?doc _ blank_services ?ld
                "unindexed_state\<lparr>vectorstore_dir := True\<rparr>" "[]"
                "\<lambda>c. [int (length c)]"] l
    by (simp add: unindexed_state_def loaded_state_def blank_services_def example_services_def)
  have 4: "get_vectorstore example_services ?doc ?built =
     (Inr report_index, ?built\<lparr>trace := trace ?built @ [IndexLoaded 1]\<rparr>)"
    using get_vectorstore_loads_or_builds
            [of unindexed_state ?doc _ example_services _ _ _ _ report_index ?built] 2
    by simp
  show ?thesis using 1 2 3 4 by simp
qed

text \<open>
  C3. An ask whose question fails validation should be rendered again with the validation
  error. On the loaded document, the empty question fails validation with the error
  \<^verbatim>\<open>Required\<close>; the chain is not called and the session is unchanged, but the page the
  view renders carries a new unbound \<^verbatim>\<open>QuestionForm()\<close> with no errors instead of the form
  it validated, and no other entry of the context holds the error. The upload branch,
  for comparison, renders the form it validated (\<open>home_upload_invalid_shows_error\<close>).
\<close>

theorem home_ask_invalid_question_shows_no_error:
  "QuestionForm_clean (req_POST (ask_request [])) = Inl [Required] \<and>
   home example_services (ask_request []) loaded_state =
     (Inr \<lparr>template = ''docchat/upload_success.html'',
           page_context =
             [(''filename'', CStr ''report.pdf''),
              (''question_form'', CForm \<lparr>is_bound = False, form_errors = []\<rparr>),
              (''conversation'', CConv [])]\<rparr>,
      loaded_state\<lparr>trace := [IndexLoaded 1, QuestionFormValidated]\<rparr>)"
  by (simp add: home_def home_ask_def objects_get_def get_vectorstore_def log_event_def
        QuestionForm_clean_def strip_def ask_request_def loaded_state_def loaded_session_def
        render_def opt_str_def unbound_form_def get_conversation_def)

text \<open>
  C4. An ask in a session without an uploaded filename renders the upload page with the
  error \<^verbatim>\<open>Please upload a document first.\<close> and returns the state it was given: the
  session, with its conversation, filename and document id, is the same, and so is
  everything else.
\<close>

theorem home_ask_fresh_session:
  assumes "req_method request = ''POST''"
    and "''upload_file'' \<notin> dom (req_POST request)"
    and "''ask_question'' \<in> dom (req_POST request)"
    and "uploaded_filename (session st) = None"
  shows "home env request st =
           (Inr (render ''docchat/upload.html''
                   [(''form'', CForm unbound_form),
                    (''error'', CStr ''Please upload a document first.'')]),
            st)"
  using assms by (simp add: home_def home_ask_def)

theorem home_ask_fresh_session_witness:
  "home example_services (ask_request ''What is the total revenue?'') fresh_state =
     (Inr (render ''docchat/upload.html''
             [(''form'', CForm unbound_form),
              (''error'', CStr ''Please upload a document first.'')]),
      fresh_state)"
  using home_ask_fresh_session
          [of "ask_request ''What is the total revenue?''" fresh_state example_services]
  by (simp add: ask_request_def fresh_state_def fresh_session_def)

text \<open>
  C5. A reset submission (the \<^verbatim>\<open>reset\<close> marker, and neither of the two markers that are
  tested before it) removes the filename, the document id and the conversation from the
  session in the one request: in the state it returns all three keys are absent, and
  nothing but the session has changed.
\<close>

theorem home_reset_clears_all:
  assumes "req_method request = ''POST''"
    and "''upload_file'' \<notin> dom (req_POST request)"
    and "''ask_question'' \<notin> dom (req_POST request)"
    and "''reset'' \<in> dom (req_POST request)"
  shows "home env request st =
           (Inr (render ''docchat/upload.html'' [(''form'', CForm unbound_form)]),
            st\<lparr>session :=
                 \<lparr>uploaded_filename = None, document_id = None, conversation = None,
                  modified = True\<rparr>\<rparr>)"
  using assms by (simp add: home_def home_reset_def)

theorem home_reset_clears_all_witness:
  "home example_services (marker_request [''reset'']) loaded_state =
     (Inr (render ''docchat/upload.html'' [(''form'', CForm unbound_form)]),
      loaded_state\<lparr>session :=
           \<lparr>uploaded_filename = None, document_id = None, conversation = None,
            modified = True\<rparr>\<rparr>)"
  using home_reset_clears_all [of "marker_request [''reset'']" example_services loaded_state]
  by (simp add: marker_request_def)

text \<open>
  C6. A clear submission (the \<^verbatim>\<open>clear_chat\<close> marker and none of the three markers tested
  before it) sets the conversation to the empty list and changes nothing else: the
  filename and the document id in the session are the ones before. So an ask that follows
  in the same session, when the session's document is loaded (filename present, row in the
  table) and the index cache and the chain answer, renders the chat page with exactly
  the new question and its answer, without another upload.
\<close>

theorem home_clear_keeps_document:
  assumes "req_method request = ''POST''"
    and "''upload_file'' \<notin> dom (req_POST request)"
    and "''ask_question'' \<notin> dom (req_POST request)"
    and "''reset'' \<notin> dom (req_POST request)"
    and "''clear_chat'' \<in> dom (req_POST request)"
  shows "home env request st =
           (Inr (render ''docchat/upload_success.html''
                   [(''filename'', opt_str (uploaded_filename (session st))),
                    (''question_form'', CForm unbound_form),
                    (''conversation'', CConv []),
                    (''answer'', CNone)]),
            st\<lparr>session := (session st)\<lparr>conversation := Some [], modified := True\<rparr>\<rparr>) \<and>
         (req_method ask = ''POST'' \<longrightarrow>
          ''upload_file'' \<notin> dom (req_POST ask) \<longrightarrow>
          ''ask_question'' \<in> dom (req_POST ask) \<longrightarrow>
          uploaded_filename (session st) = Some f \<longrightarrow> f \<noteq> [] \<longrightarrow>
          document_id (session st) = Some i \<longrightarrow> i \<noteq> 0 \<longrightarrow>
          documents st i = Some file \<longrightarrow>
          fst (get_vectorstore env \<lparr>doc_id = i, doc_file = file\<rparr> st) = Inr vs \<longrightarrow>
          QuestionForm_clean (req_POST ask) = Inr q \<longrightarrow>
          qa_run env vs q = Inr a \<longrightarrow>
            fst (home env ask (snd (home env request st))) =
              Inr (render ''docchat/upload_success.html''
                     [(''filename'', CStr f),
                      (''question_form'', CForm unbound_form),
                      (''conversation'', CConv [\<lparr>question = q, answer = a\<rparr>])]))"
proof -
  let ?st' = "st\<lparr>session := (session st)\<lparr>conversation := Some [], modified := True\<rparr>\<rparr>"
  let ?doc = "\<lparr>doc_id = i, doc_file = file\<rparr>"
  have c: "home env request st =
           (Inr (render ''docchat/upload_success.html''
                   [(''filename'', opt_str (uploaded_filename (session st))),
                    (''question_form'', CForm unbound_form),
                    (''conversation'', CConv []),
                    (''answer'', CNone)]), ?st')"
    using assms by (simp add: home_def home_clear_def Let_def)
  have "fst (home env ask ?st') =
              Inr (render ''docchat/upload_success.html''
                     [(''filename'', CStr f),
                      (''question_form'', CForm unbound_form),
                      (''conversation'', CConv [\<lparr>question = q, answer = a\<rparr>])])"
    if a: "req_method ask = ''POST''" "''upload_file'' \<notin> dom (req_POST ask)"
      "''ask_question'' \<in> dom (req_POST ask)"
      "uploaded_filename (session st) = Some f" "f \<noteq> []"
      "document_id (session st) = Some i" "i \<noteq> 0" "documents st i = Some file"
      "fst (get_vectorstore env ?doc st) = Inr vs"
      "QuestionForm_clean (req_POST ask) = Inr q" "qa_run env vs q = Inr a"
  proof -
    have g: "fst (get_vectorstore env ?doc ?st') = Inr vs"
      using get_vectorstore_fst_cong [of ?st' ?doc st env] a(9) by simp
    obtain st1 where gv: "get_vectorstore env ?doc ?st' = (Inr vs, st1)"
      using g by (cases "get_vectorstore env ?doc ?st'") simp
    have h: "home env ask ?st' = home_ask env ask ?st'"
      using a(1-3) by (simp add: home_def)
    show ?thesis
      using home_ask_loaded [of ?st' f i "file" env "Inr vs" st1 ask] a gv h
      by (simp add: get_conversation_def)
  qed
  with c show ?thesis by simp
qed

theorem home_clear_keeps_document_witness:
  "home example_services (marker_request [''clear_chat''])
     (loaded_state\<lparr>session := loaded_session
        \<lparr>conversation := Some [\<lparr>question = ''Who?'', answer = ''Me''\<rparr>]\<rparr>\<rparr>) =
     (Inr (render ''docchat/upload_success.html''
             [(''filename'', CStr ''report.pdf''),
              (''question_form'', CForm unbound_form),
              (''conversation'', CConv []),
              (''answer'', CNone)]),
      loaded_state) \<and>
   fst (home example_services (ask_request ''What is the total revenue?'')
          (snd (home example_services (marker_request [''clear_chat''])
             (loaded_state\<lparr>session := loaded_session
                \<lparr>conversation := Some [\<lparr>question = ''Who?'', answer = ''Me''\<rparr>]\<rparr>\<rparr>)))) =
     Inr (render ''docchat/upload_success.html''
            [(''filename'', CStr ''report.pdf''),
             (''question_form'', CForm unbound_form),
             (''conversation'',
                CConv [\<lparr>question = ''What is the total revenue?'', answer = ''42''\<rparr>])])"
proof -
  let ?clear = "marker_request [''clear_chat'']"
  let ?ask = "ask_request ''What is the total revenue?''"
  let ?st = "loaded_state\<lparr>session := loaded_session
        \<lparr>conversation := Some [\<lparr>question = ''Who?'', answer = ''Me''\<rparr>]\<rparr>\<rparr>"
  have c: "req_method ?clear = ''POST''" "''upload_file'' \<notin> dom (req_POST ?clear)"
    "''ask_question'' \<notin> dom (req_POST ?clear)" "''reset'' \<notin> dom (req_POST ?clear)"
    "''clear_chat'' \<in> dom (req_POST ?clear)"
    by (simp_all add: marker_request_def)
  have a: "req_method ?ask = ''POST''" "''upload_file'' \<notin> dom (req_POST ?ask)"
    "''ask_question'' \<in> dom (req_POST ?ask)"
    by (simp_all add: ask_request_def)
  have s: "uploaded_filename (session ?st) = Some ''report.pdf''"
    "document_id (session ?st) = Some 1" "documents ?st 1 = Some report_file"
    "vectorstores ?st 1 = Some report_index"
    by (simp_all add: loaded_state_def loaded_session_def)
  have q: "qa_run example_services report_index ''What is the total revenue?'' = Inr ''42''"
    by (simp add: example_services_def)
  have e: "?st\<lparr>session := (session ?st)\<lparr>conversation := Some [], modified := True\<rparr>\<rparr> =
             loaded_state"
    by (simp add: loaded_state_def loaded_session_def)
  note t = home_clear_keeps_document
      [of ?clear example_services ?st ?ask "''report.pdf''" 1 report_file
          report_index "''What is the total revenue?''" "''42''", OF c]
  have "home example_services ?clear ?st =
     (Inr (render ''docchat/upload_success.html''
             [(''filename'', CStr ''report.pdf''),
              (''question_form'', CForm unbound_form),
              (''conversation'', CConv []),
              (''answer'', CNone)]),
      loaded_state)"
    using t [THEN conjunct1] s(1) e by (simp add: opt_str_def)
  moreover have "fst (home example_services ?ask (snd (home example_services ?clear ?st))) =
     Inr (render ''docchat/upload_success.html''
            [(''filename'', CStr ''report.pdf''),
             (''question_form'', CForm unbound_form),
             (''conversation'',
                CConv [\<lparr>question = ''What is the total revenue?'', answer = ''42''\<rparr>])])"
    using t [THEN conjunct2] a s q QuestionForm_clean_revenue
      get_vectorstore_loaded_state [OF s(4)]
    by simp
  ultimately show ?thesis by blast
qed

text \<open>
  C7. A successful ask (filename present, the session's document in the table, the index
  loaded or built, the question valid with cleaned value \<open>q\<close>, the chain answering \<open>a\<close>)
  leaves the session with the conversation it had followed by the one entry for \<open>q\<close> and
  \<open>a\<close>: the earlier entries are a prefix, in their order, and the page shows that list.
\<close>

theorem home_ask_appends_entry:
  assumes "req_method request = ''POST''"
    and "''upload_file'' \<notin> dom (req_POST request)"
    and "''ask_question'' \<in> dom (req_POST request)"
    and "uploaded_filename (session st) = Some f" and "f \<noteq> []"
    and "document_id (session st) = Some i" and "i \<noteq> 0"
    and "documents st i = Some file"
    and "fst (get_vectorstore env \<lparr>doc_id = i, doc_file = file\<rparr> st) = Inr vs"
    and "QuestionForm_clean (req_POST request) = Inr q"
    and "qa_run env vs q = Inr a"
  shows "session (snd (home env request st)) =
           (session st)\<lparr>conversation :=
                          Some (get_conversation (session st) @ [\<lparr>question = q, answer = a\<rparr>]),
                        modified := True\<rparr> \<and>
         fst (home env request st) =
           Inr (render ''docchat/upload_success.html''
                  [(''filename'', CStr f),
                   (''question_form'', CForm unbound_form),
                   (''conversation'',
                      CConv (get_conversation (session st) @ [\<lparr>question = q, answer = a\<rparr>]))])"
proof -
  obtain st1 where gv: "get_vectorstore env \<lparr>doc_id = i, doc_file = file\<rparr> st = (Inr vs, st1)"
    using assms(9) by (cases "get_vectorstore env \<lparr>doc_id = i, doc_file = file\<rparr> st") simp
  have h: "home env request st = home_ask env request st"
    using assms(1-3) by (simp add: home_def)
  show ?thesis
    using home_ask_loaded [OF assms(4-8) gv, of request] assms(10,11) h by simp
qed

theorem home_ask_appends_entry_witness:
  "session (snd (home example_services (ask_request ''What is the total revenue?'')
                   (loaded_state\<lparr>session := loaded_session
                      \<lparr>conversation := Some [\<lparr>question = ''Who?'', answer = ''Me''\<rparr>]\<rparr>\<rparr>))) =
     loaded_session
       \<lparr>conversation :=
          Some [\<lparr>question = ''Who?'', answer = ''Me''\<rparr>,
                \<lparr>question = ''What is the total revenue?'', answer = ''42''\<rparr>]\<rparr> \<and>
   fst (home example_services (ask_request ''What is the total revenue?'')
          (loaded_state\<lparr>session := loaded_session
             \<lparr>conversation := Some [\<lparr>question = ''Who?'', answer = ''Me''\<rparr>]\<rparr>\<rparr>)) =
     Inr (render ''docchat/upload_success.html''
            [(''filename'', CStr ''report.pdf''),
             (''question_form'', CForm unbound_form),
             (''conversation'',
                CConv [\<lparr>question = ''Who?'', answer = ''Me''\<rparr>,
                       \<lparr>question = ''What is the total revenue?'', answer = ''42''\<rparr>])])"
  using home_ask_appends_entry
      [of "ask_request ''What is the total revenue?''"
          "loaded_state\<lparr>session := loaded_session
                      \<lparr>conversation := Some [\<lparr>question = ''Who?'', answer = ''Me''\<rparr>]\<rparr>\<rparr>"
          "''report.pdf''" 1 report_file example_services report_index
          "''What is the total revenue?''" "''42''"]
    QuestionForm_clean_revenue
    get_vectorstore_loaded_state
      [of "loaded_state\<lparr>session := loaded_session
                      \<lparr>conversation := Some [\<lparr>question = ''Who?'', answer = ''Me''\<rparr>]\<rparr>\<rparr>"]
  by (simp add: loaded_state_def loaded_session_def
        ask_request_def example_services_def get_conversation_def)




text \<open>
  C9. In an ask on a loaded document the calls of the index cache come first: they contain
  neither the validation of the question nor a call of the chain. If the cache raises,
  the view raises the same error in the state the cache left, whatever the question is.
  If it returns, its last call is the load or the persisting of the index, the index is
  on disk afterwards, and the rest of the request's trace is the validation of the
  question followed by the call of the chain when the question is valid and by nothing
  when it is not.
\<close>

theorem home_ask_index_first:
  assumes "req_method request = ''POST''"
    and "''upload_file'' \<notin> dom (req_POST request)"
    and "''ask_question'' \<in> dom (req_POST request)"
    and "uploaded_filename (session st) = Some f" and "f \<noteq> []"
    and "document_id (session st) = Some i" and "i \<noteq> 0"
    and "documents st i = Some file"
    and "get_vectorstore env \<lparr>doc_id = i, doc_file = file\<rparr> st = (r, st1)"
  shows "\<exists>evs. trace st1 = trace st @ evs \<and>
           QuestionFormValidated \<notin> set evs \<and> (\<forall>ix q. QaRun ix q \<notin> set evs) \<and>
           (case r of
              Inl e \<Rightarrow> home env request st = (Inl e, st1)
            | Inr vs \<Rightarrow>
                evs \<noteq> [] \<and> (last evs = IndexLoaded i \<or> last evs = IndexPersisted i) \<and>
                vectorstores (snd (home env request st)) i = Some vs \<and>
                trace (snd (home env request st)) =
                  trace st @ evs @ QuestionFormValidated #
                    (case QuestionForm_clean (req_POST request) of
                       Inl errs \<Rightarrow> []
                     | Inr q \<Rightarrow> [QaRun vs q]))"
proof -
  let ?doc = "\<lparr>doc_id = i, doc_file = file\<rparr>"
  obtain evs where evs: "trace st1 = trace st @ evs" "QuestionFormValidated \<notin> set evs"
      "\<forall>ix q. QaRun ix q \<notin> set evs"
      "\<forall>ix. r = Inr ix \<longrightarrow>
         evs \<noteq> [] \<and> (last evs = IndexLoaded i \<or> last evs = IndexPersisted i)"
    using get_vectorstore_trace [of env ?doc st] assms(9) by auto
  have h: "home env request st = home_ask env request st"
    using assms(1-3) by (simp add: home_def)
  note ask = home_ask_loaded [OF assms(4-9), of request]
  have "case r of
          Inl e \<Rightarrow> home env request st = (Inl e, st1)
        | Inr vs \<Rightarrow>
            evs \<noteq> [] \<and> (last evs = IndexLoaded i \<or> last evs = IndexPersisted i) \<and>
            vectorstores (snd (home env request st)) i = Some vs \<and>
            trace (snd (home env request st)) =
              trace st @ evs @ QuestionFormValidated #
                (case QuestionForm_clean (req_POST request) of
                   Inl errs \<Rightarrow> []
                 | Inr q \<Rightarrow> [QaRun vs q])"
  proof (cases r)
    case (Inl e)
    then show ?thesis using ask h by simp
  next
    case (Inr vs)
    have p: "vectorstores st1 i = Some vs"
      using get_vectorstore_persisted [of env ?doc st vs st1] assms(9) Inr by simp
    show ?thesis
      using Inr ask h evs p by (simp split: sum.splits)
  qed
  with evs(1-3) show ?thesis by blast
qed

theorem home_ask_index_first_witness:
  "trace (snd (home example_services (ask_request ''  '') unindexed_state)) =
     [PdfLoad (LocalPdf ''/srv/media/report.pdf''), EmbedCall [''Total revenue: 42''],
      IndexPersisted 1, QuestionFormValidated] \<and>
   vectorstores (snd (home example_services (ask_request ''  '') unindexed_state)) 1 =
     Some report_index"
  using home_ask_index_first
      [of "ask_request ''  ''" unindexed_state "''report.pdf''" 1 report_file example_services
          "Inr report_index", OF _ _ _ _ _ _ _ _ get_vectorstore_unindexed_state]
    QuestionForm_clean_blank
  by (auto simp add: unindexed_state_def loaded_state_def loaded_session_def ask_request_def)

text \<open>
  C10. On a POST the first marker present in the order \<^verbatim>\<open>upload_file\<close>, \<^verbatim>\<open>ask_question\<close>,
  \<^verbatim>\<open>reset\<close>, \<^verbatim>\<open>clear_chat\<close> selects the branch that runs: the view is that branch's body
  alone, and its result is the one of the same request with the markers of lower
  precedence removed. A request that is not a POST, or a POST with none of the four
  markers, renders the upload page with an unbound form and returns the state unchanged.
\<close>

theorem home_marker_precedence:
  "(req_method request = ''POST'' \<and> ''upload_file'' \<in> dom (req_POST request) \<longrightarrow>
      home env request st = home_upload env request st \<and>
      home env request st =
        home env (request\<lparr>req_POST := (req_POST request)
                    (''ask_question'' := None, ''reset'' := None, ''clear_chat'' := None)\<rparr>) st) \<and>
   (req_method request = ''POST'' \<and> ''upload_file'' \<notin> dom (req_POST request) \<and>
    ''ask_question'' \<in> dom (req_POST request) \<longrightarrow>
      home env request st = home_ask env request st \<and>
      home env request st =
        home env (request\<lparr>req_POST := (req_POST request)
                    (''reset'' := None, ''clear_chat'' := None)\<rparr>) st) \<and>
   (req_method request = ''POST'' \<and> ''upload_file'' \<notin> dom (req_POST request) \<and>
    ''ask_question'' \<notin> dom (req_POST request) \<and> ''reset'' \<in> dom (req_POST request) \<longrightarrow>
      home env request st = home_reset st \<and>
      home env request st =
        home env (request\<lparr>req_POST := (req_POST request)(''clear_chat'' := None)\<rparr>) st) \<and>
   (req_method request = ''POST'' \<and> ''upload_file'' \<notin> dom (req_POST request) \<and>
    ''ask_question'' \<notin> dom (req_POST request) \<and> ''reset'' \<notin> dom (req_POST request) \<and>
    ''clear_chat'' \<in> dom (req_POST request) \<longrightarrow>
      home env request st = home_clear st) \<and>
   (req_method request \<noteq> ''POST'' \<or>
    (''upload_file'' \<notin> dom (req_POST request) \<and> ''ask_question'' \<notin> dom (req_POST request) \<and>
     ''reset'' \<notin> dom (req_POST request) \<and> ''clear_chat'' \<notin> dom (req_POST request)) \<longrightarrow>
      home env request st =
        (Inr (render ''docchat/upload.html'' [(''form'', CForm unbound_form)]), st))"
proof (intro conjI impI)
  assume "req_method request = ''POST'' \<and> ''upload_file'' \<in> dom (req_POST request)"
  then show "home env request st = home_upload env request st"
    and "home env request st =
        home env (request\<lparr>req_POST := (req_POST request)
                    (''ask_question'' := None, ''reset'' := None, ''clear_chat'' := None)\<rparr>) st"
    using home_upload_cong
            [of request "request\<lparr>req_POST := (req_POST request)
                    (''ask_question'' := None, ''reset'' := None, ''clear_chat'' := None)\<rparr>"
                env st]
    by (simp_all add: home_def)
next
  assume "req_method request = ''POST'' \<and> ''upload_file'' \<notin> dom (req_POST request) \<and>
    ''ask_question'' \<in> dom (req_POST request)"
  then show "home env request st = home_ask env request st"
    and "home env request st =
        home env (request\<lparr>req_POST := (req_POST request)
                    (''reset'' := None, ''clear_chat'' := None)\<rparr>) st"
    using home_ask_cong
            [of request "request\<lparr>req_POST := (req_POST request)
                    (''reset'' := None, ''clear_chat'' := None)\<rparr>" env st]
    by (simp_all add: home_def)
next
  assume "req_method request = ''POST'' \<and> ''upload_file'' \<notin> dom (req_POST request) \<and>
    ''ask_question'' \<notin> dom (req_POST request) \<and> ''reset'' \<in> dom (req_POST request)"
  then show "home env request st = home_reset st"
    and "home env request st =
        home env (request\<lparr>req_POST := (req_POST request)(''clear_chat'' := None)\<rparr>) st"
    by (simp_all add: home_def)
next
  assume "req_method request = ''POST'' \<and> ''upload_file'' \<notin> dom (req_POST request) \<and>
    ''ask_question'' \<notin> dom (req_POST request) \<and> ''reset'' \<notin> dom (req_POST request) \<and>
    ''clear_chat'' \<in> dom (req_POST request)"
  then show "home env request st = home_clear st"
    by (simp add: home_def)
next
  assume "req_method request \<noteq> ''POST'' \<or>
    (''upload_file'' \<notin> dom (req_POST request) \<and> ''ask_question'' \<notin> dom (req_POST request) \<and>
     ''reset'' \<notin> dom (req_POST request) \<and> ''clear_chat'' \<notin> dom (req_POST request))"
  then show "home env request st =
        (Inr (render ''docchat/upload.html'' [(''form'', CForm unbound_form)]), st)"
    by (auto simp add: home_def home_default_def)
qed

theorem home_marker_precedence_witness:
  "home example_services
     (marker_request [''clear_chat'', ''reset'', ''ask_question'', ''upload_file'']) loaded_state =
     home example_services (marker_request [''upload_file'']) loaded_state \<and>
   home example_services (marker_request [''clear_chat'', ''reset'', ''ask_question'']) fresh_state =
     home example_services (marker_request [''ask_question'']) fresh_state \<and>
   home example_services (marker_request [''clear_chat'', ''reset'']) loaded_state =
     home_reset loaded_state \<and>
   home example_services (marker_request [''clear_chat'']) loaded_state =
     home_clear loaded_state \<and>
   home example_services (marker_request []) loaded_state =
     (Inr (render ''docchat/upload.html'' [(''form'', CForm unbound_form)]), loaded_state) \<and>
   home example_services get_request loaded_state =
     (Inr (render ''docchat/upload.html'' [(''form'', CForm unbound_form)]), loaded_state)"
proof -
  let ?all = "marker_request [''clear_chat'', ''reset'', ''ask_question'', ''upload_file'']"
  let ?three = "marker_request [''clear_chat'', ''reset'', ''ask_question'']"
  let ?two = "marker_request [''clear_chat'', ''reset'']"
  have u: "?all\<lparr>req_POST := (req_POST ?all)
             (''ask_question'' := None, ''reset'' := None, ''clear_chat'' := None)\<rparr> =
           marker_request [''upload_file'']"
    by (simp add: marker_request_def fun_eq_iff)
  have a: "?three\<lparr>req_POST := (req_POST ?three)(''reset'' := None, ''clear_chat'' := None)\<rparr> =
           marker_request [''ask_question'']"
    by (simp add: marker_request_def fun_eq_iff)
  have h1: "req_method ?all = ''POST'' \<and> ''upload_file'' \<in> dom (req_POST ?all)"
    by (simp add: marker_request_def)
  have "home example_services ?all loaded_state =
          home example_services (?all\<lparr>req_POST := (req_POST ?all)
             (''ask_question'' := None, ''reset'' := None, ''clear_chat'' := None)\<rparr>) loaded_state"
    using home_marker_precedence [of ?all example_services loaded_state] h1 by blast
  then have 1: "home example_services ?all loaded_state =
             home example_services (marker_request [''upload_file'']) loaded_state"
    using u by simp
  have h2: "req_method ?three = ''POST'' \<and> ''upload_file'' \<notin> dom (req_POST ?three) \<and>
            ''ask_question'' \<in> dom (req_POST ?three)"
    by (simp add: marker_request_def)
  have "home example_services ?three fresh_state =
          home example_services
            (?three\<lparr>req_POST := (req_POST ?three)(''reset'' := None, ''clear_chat'' := None)\<rparr>)
            fresh_state"
    using home_marker_precedence [of ?three example_services fresh_state] h2 by blast
  then have 2: "home example_services ?three fresh_state =
             home example_services (marker_request [''ask_question'']) fresh_state"
    using a by simp
  have h3: "req_method ?two = ''POST'' \<and> ''upload_file'' \<notin> dom (req_POST ?two) \<and>
            ''ask_question'' \<notin> dom (req_POST ?two) \<and> ''reset'' \<in> dom (req_POST ?two)"
    by (simp add: marker_request_def)
  have 3: "home example_services ?two loaded_state = home_reset loaded_state"
    using home_marker_precedence [of ?two example_services loaded_state] h3 by blast
  have h4: "req_method (marker_request [''clear_chat'']) = ''POST'' \<and>
            ''upload_file'' \<notin> dom (req_POST (marker_request [''clear_chat''])) \<and>
            ''ask_question'' \<notin> dom (req_POST (marker_request [''clear_chat''])) \<and>
            ''reset'' \<notin> dom (req_POST (marker_request [''clear_chat''])) \<and>
            ''clear_chat'' \<in> dom (req_POST (marker_request [''clear_chat'']))"
    by (simp add: marker_request_def)
  have 4: "home example_services (marker_request [''clear_chat'']) loaded_state =
             home_clear loaded_state"
    using home_marker_precedence
            [of "marker_request [''clear_chat'']" example_services loaded_state] h4
    by blast
  have h5: "''upload_file'' \<notin> dom (req_POST (marker_request [])) \<and>
            ''ask_question'' \<notin> dom (req_POST (marker_request [])) \<and>
            ''reset'' \<notin> dom (req_POST (marker_request [])) \<and>
            ''clear_chat'' \<notin> dom (req_POST (marker_request []))"
    by (simp add: marker_request_def)
  have 5: "home example_services (marker_request []) loaded_state =
     (Inr (render ''docchat/upload.html'' [(''form'', CForm unbound_form)]), loaded_state)"
    using home_marker_precedence [of "marker_request []" example_services loaded_state] h5
    by blast
  have h6: "req_method get_request \<noteq> ''POST''"
    by (simp add: get_request_def)
  have 6: "home example_services get_request loaded_state =
     (Inr (render ''docchat/upload.html'' [(''form'', CForm unbound_form)]), loaded_state)"
    using home_marker_precedence [of get_request example_services loaded_state] h6
    by blast
  show ?thesis using 1 2 3 4 5 6 by blast
qed

end
